theory Spec2Isabelle
  imports Complex_Main
begin

section \<open>Data model\<close>

text \<open>
  The two models of the repository, \<^verbatim>\<open>task.management\<close>
  (\<^verbatim>\<open>src/models/task_management.py\<close>) and \<^verbatim>\<open>task.timesheet.line\<close>
  (\<^verbatim>\<open>src/models/task_timesheet_line.py\<close>), as records holding the fields that the
  computations below read or write.

  Conventions of the embedding:
  \<^item> a \<^verbatim>\<open>Float\<close> field is a \<^typ>\<open>real\<close>: arithmetic is exact, rounding of
    binary floating point is outside the model; an unset \<^verbatim>\<open>Float\<close> reads as \<open>0\<close>,
    as the ORM returns it;
  \<^item> a \<^verbatim>\<open>Date\<close> is its proleptic Gregorian ordinal (Python's
    \<^verbatim>\<open>date.toordinal()\<close>), so comparison and \<^verbatim>\<open>timedelta(days=n)\<close> are
    integer comparison and addition; a \<^verbatim>\<open>Datetime\<close> is an integer time stamp;
  \<^item> a \<^verbatim>\<open>Many2one\<close> is an \<open>option\<close> when it may be empty, and the referenced
    record carries its database id, compared by id as record sets are;
  \<^item> a record set is the list of its records, in iteration order;
  \<^item> the ambient environment (current user, current date and time, context flags) is
    passed as explicit parameters.
\<close>

type_synonym date = int
type_synonym datetime = int

text \<open>
  \<^verbatim>\<open>task.stage\<close>, read through \<^verbatim>\<open>stage_id.name\<close>, \<^verbatim>\<open>stage_id.stage_type\<close> and
  \<^verbatim>\<open>stage_id.is_closed\<close>. The model itself is not part of the sources; the three fields
  are independent data of a stage record.
\<close>

record stage =
  stage_name :: string
  stage_type :: string
  stage_is_closed :: bool

text \<open>
  \<^verbatim>\<open>task.subtask\<close>, read through \<^verbatim>\<open>id\<close>, \<^verbatim>\<open>name\<close>, \<^verbatim>\<open>parent_task_id\<close>,
  \<^verbatim>\<open>is_done\<close> and \<^verbatim>\<open>deadline\<close> (a \<^verbatim>\<open>Date\<close>, possibly unset).
\<close>

record subtask =
  subtask_rec_id :: nat
  subtask_name :: string
  parent_task_id :: nat
  is_done :: bool
  deadline :: "date option"

record res_users =
  user_rec_id :: nat
  user_name :: string

text \<open>The task a time log points to (\<^verbatim>\<open>task_id\<close>): its id and its \<^verbatim>\<open>name\<close>.\<close>

record task_ref =
  task_rec_id :: nat
  task_name :: string

text \<open>
  \<^verbatim>\<open>task.timesheet.line\<close>. \<^verbatim>\<open>name\<close> is \<open>None\<close> where Python reads \<^verbatim>\<open>False\<close>
  (no value); \<open>Some []\<close> is the empty string, which is falsy too.
\<close>

record timesheet_line =
  name :: "string option"
  task_id :: task_ref
  subtask_id :: "subtask option"
  user_id :: res_users
  date :: date
  unit_amount :: real

datatype kanban = Kanban_normal | Kanban_done | Kanban_blocked

record task =
  stage_id :: "stage option"
  kanban_state :: kanban
  progress :: real
  planned_hours :: real
  effective_hours :: real
  remaining_hours :: real
  timesheet_ids :: "timesheet_line list"
  subtask_ids :: "subtask list"
  date_end :: "datetime option"
  is_closed :: bool

datatype error = ValidationError string | ValueError string

section \<open>Time aggregation on a task\<close>

text \<open>\<^verbatim>\<open>x or 0.0\<close> on a float: \<open>x\<close> when it is truthy (non-zero), else \<open>0.0\<close>.\<close>

definition or_zero :: "real \<Rightarrow> real" where
  "or_zero x = (if x \<noteq> 0 then x else 0)"

text \<open>
  \<^verbatim>\<open>_compute_effective_hours\<close> (lines 285-288):
  \<^verbatim>\<open>task.effective_hours = sum(task.timesheet_ids.mapped('unit_amount'))\<close>.
\<close>

definition compute_effective_hours :: "task \<Rightarrow> task" where
  "compute_effective_hours t =
     t\<lparr>effective_hours := sum_list (map unit_amount (timesheet_ids t))\<rparr>"

text \<open>
  The class body defines \<^verbatim>\<open>_compute_remaining_hours\<close> twice. The first definition
  (lines 290-293) only assigns the field; the second (lines 590-601) replaces it in the
  class namespace and is the one the ORM calls. Both are embedded, one record of the
  loop \<^verbatim>\<open>for task in self\<close> at a time.
\<close>

definition compute_remaining_hours_first :: "task \<Rightarrow> task" where
  "compute_remaining_hours_first t =
     t\<lparr>remaining_hours := or_zero (planned_hours t) - effective_hours t\<rparr>"

definition compute_remaining_hours :: "task \<Rightarrow> task" where
  "compute_remaining_hours t =
     (let t1 = t\<lparr>remaining_hours := or_zero (planned_hours t) - effective_hours t\<rparr> in
      if planned_hours t1 > 0 \<and> subtask_ids t1 = [] then
        (let hours_progress = min 100 (effective_hours t1 / planned_hours t1 * 100) in
         if \<bar>progress t1 - hours_progress\<bar> > 5 then t1\<lparr>progress := hours_progress\<rparr>
         else t1)
      else t1)"

text \<open>The methods on a record set: the loop body applied to each record in turn.\<close>

definition compute_remaining_hours_first_all :: "task list \<Rightarrow> task list" where
  "compute_remaining_hours_first_all self = map compute_remaining_hours_first self"

definition compute_remaining_hours_all :: "task list \<Rightarrow> task list" where
  "compute_remaining_hours_all self = map compute_remaining_hours self"

section \<open>Progress from subtasks or from the stage\<close>

text \<open>
  \<^verbatim>\<open>update_progress_from_subtasks\<close> (lines 457-476), the body of its loop. An empty
  \<^verbatim>\<open>stage_id\<close> has the name \<^verbatim>\<open>False\<close>, which equals none of the five names, so
  \<open>progress\<close> keeps its value. \<^verbatim>\<open>done / total\<close> is Python's true division.
\<close>

definition update_progress_from_subtasks :: "task \<Rightarrow> task" where
  "update_progress_from_subtasks t =
     (if subtask_ids t \<noteq> [] then
        (let total = length (subtask_ids t);
             done = length (filter is_done (subtask_ids t))
         in t\<lparr>progress := (if total > 0 then real done / real total * 100 else 0)\<rparr>)
      else
        (case stage_id t of
           None \<Rightarrow> t
         | Some s \<Rightarrow>
             if stage_name s = ''To-Do'' then t\<lparr>progress := 0\<rparr>
             else if stage_name s = ''In Progress'' then t\<lparr>progress := 40\<rparr>
             else if stage_name s = ''Review'' then t\<lparr>progress := 70\<rparr>
             else if stage_name s = ''Done'' then t\<lparr>progress := 100\<rparr>
             else if stage_name s = ''Cancelled'' then t\<lparr>progress := 0\<rparr>
             else t))"

text \<open>The method on a record set; it returns \<^verbatim>\<open>True\<close>.\<close>

definition update_progress_from_subtasks_all :: "task list \<Rightarrow> task list \<times> bool" where
  "update_progress_from_subtasks_all self = (map update_progress_from_subtasks self, True)"

text \<open>
  Modelled from the spec: the subtask model \<^verbatim>\<open>task.subtask\<close> and the handler of a
  write to its \<^verbatim>\<open>is_done\<close> field are missing from the sources, and nothing in the two
  source files calls \<^verbatim>\<open>update_progress_from_subtasks\<close>. Following the spec ("progress ==
  completed_subtasks / total_subtasks * 100 after any subtask is_done toggle", and
  "Task's derived counts recompute on any subtask mutation"), a toggle flips the flag of
  the \<open>i\<close>-th subtask of the task and then runs \<^verbatim>\<open>update_progress_from_subtasks\<close> on the
  parent task. A position that names no subtask toggles nothing.
\<close>

definition toggle_is_done :: "nat \<Rightarrow> task \<Rightarrow> task" where
  "toggle_is_done i t =
     (if i < length (subtask_ids t) then
        update_progress_from_subtasks
          (t\<lparr>subtask_ids :=
               (subtask_ids t)[i := (subtask_ids t ! i)\<lparr>is_done := \<not> is_done (subtask_ids t ! i)\<rparr>]\<rparr>)
      else t)"

section \<open>Stage and closure synchronisation\<close>

text \<open>
  \<^verbatim>\<open>_onchange_stage_id\<close> (lines 355-380) on the edited record; \<open>now\<close> is
  \<^verbatim>\<open>fields.Datetime.now()\<close>. The name decides \<open>progress\<close>, \<open>kanban_state\<close> and
  \<open>date_end\<close>; \<open>stage_type\<close> alone decides \<open>is_closed\<close>.
\<close>

definition onchange_stage_id :: "datetime \<Rightarrow> task \<Rightarrow> task" where
  "onchange_stage_id now t =
     (case stage_id t of
        None \<Rightarrow> t
      | Some s \<Rightarrow>
          (let t1 =
             (if stage_name s = ''To-Do'' then t\<lparr>progress := 0, kanban_state := Kanban_normal\<rparr>
              else if stage_name s = ''In Progress'' then
                t\<lparr>progress := 40, kanban_state := Kanban_normal\<rparr>
              else if stage_name s = ''Review'' then
                t\<lparr>progress := 70, kanban_state := Kanban_normal\<rparr>
              else if stage_name s = ''Done'' then
                t\<lparr>progress := 100, date_end := Some now, kanban_state := Kanban_done\<rparr>
              else if stage_name s = ''Cancelled'' then
                t\<lparr>progress := 0, kanban_state := Kanban_blocked\<rparr>
              else t)
           in if stage_type s \<in> set [''done'', ''cancelled''] then t1\<lparr>is_closed := True\<rparr>
              else t1\<lparr>is_closed := False\<rparr>))"

text \<open>
  \<^verbatim>\<open>_compute_is_closed\<close> (lines 301-304), the body of its loop: the stored field copies
  the stage's own \<^verbatim>\<open>is_closed\<close> flag.
\<close>

definition compute_is_closed :: "task \<Rightarrow> task" where
  "compute_is_closed t =
     t\<lparr>is_closed := (case stage_id t of Some s \<Rightarrow> stage_is_closed s | None \<Rightarrow> False)\<rparr>"

section \<open>Time-tracking summary of a task\<close>

record time_entry =
  entry_date :: date
  entry_user :: string
  entry_hours :: real

record subtask_time =
  group_name :: string
  group_total_hours :: real
  group_entries :: "time_entry list"

record tracking_summary =
  total_planned :: real
  total_spent :: real
  remaining :: real
  progress_percent :: real
  by_subtask :: "(nat \<times> subtask_time) list"
  is_over_budget :: bool

text \<open>
  One round of the loop of \<^verbatim>\<open>get_time_tracking_summary\<close> (lines 609-622). The
  dictionary \<^verbatim>\<open>subtask_times\<close> is an association list in insertion order, its keys
  distinct; time logs without a subtask go under key \<open>0\<close>, named "Other Work".
\<close>

definition add_timesheet ::
    "(nat \<times> subtask_time) list \<Rightarrow> timesheet_line \<Rightarrow> (nat \<times> subtask_time) list" where
  "add_timesheet subtask_times timesheet =
     (let subtask_key = (case subtask_id timesheet of Some s \<Rightarrow> subtask_rec_id s | None \<Rightarrow> 0);
          present =
            (if map_of subtask_times subtask_key = None then
               subtask_times @
                 [(subtask_key,
                   \<lparr>group_name =
                      (case subtask_id timesheet of
                         Some s \<Rightarrow> subtask_name s
                       | None \<Rightarrow> ''Other Work''),
                    group_total_hours = 0,
                    group_entries = []\<rparr>)]
             else subtask_times)
      in map (\<lambda>(k, g).
                if k = subtask_key then
                  (k, g\<lparr>group_total_hours := group_total_hours g + unit_amount timesheet,
                        group_entries := group_entries g @
                          [\<lparr>entry_date = date timesheet,
                            entry_user = user_name (user_id timesheet),
                            entry_hours = unit_amount timesheet\<rparr>]\<rparr>)
                else (k, g))
           present)"

text \<open>
  \<^verbatim>\<open>get_time_tracking_summary\<close> (lines 603-631). \<^verbatim>\<open>ensure_one()\<close> raises
  \<^verbatim>\<open>ValueError\<close> unless the record set holds exactly one task. The last entry is
  \<^verbatim>\<open>self.effective_hours > self.planned_hours if self.planned_hours else False\<close>.
\<close>

definition get_time_tracking_summary :: "task list \<Rightarrow> error + tracking_summary" where
  "get_time_tracking_summary self =
     (case self of
        [t] \<Rightarrow>
          Inr \<lparr>total_planned = planned_hours t,
               total_spent = effective_hours t,
               remaining = remaining_hours t,
               progress_percent = progress t,
               by_subtask = foldl add_timesheet [] (timesheet_ids t),
               is_over_budget =
                 (if planned_hours t \<noteq> 0 then effective_hours t > planned_hours t else False)\<rparr>
      | _ \<Rightarrow> Inl (ValueError ''Expected singleton''))"

section \<open>Time log entries\<close>

text \<open>Python's truth test on the \<^verbatim>\<open>name\<close> of a time log: \<^verbatim>\<open>not record.name\<close>.\<close>

definition not_name :: "string option \<Rightarrow> bool" where
  "not_name n = (case n of None \<Rightarrow> True | Some s \<Rightarrow> s = [])"

text \<open>
  \<^verbatim>\<open>_onchange_subtask_id\<close> (lines 163-170), the body of its loop:
  \<^verbatim>\<open>if record.subtask_id and record.subtask_id.deadline\<close>, then the date is assigned and,
  when the description is empty, the description too.
\<close>

definition onchange_subtask_id :: "timesheet_line \<Rightarrow> timesheet_line" where
  "onchange_subtask_id record =
     (case subtask_id record of
        None \<Rightarrow> record
      | Some s \<Rightarrow>
          (case deadline s of
             None \<Rightarrow> record
           | Some d \<Rightarrow>
               (let r1 = record\<lparr>date := d\<rparr> in
                if not_name (name r1) then r1\<lparr>name := Some (subtask_name s)\<rparr> else r1)))"

definition onchange_subtask_id_all :: "timesheet_line list \<Rightarrow> timesheet_line list" where
  "onchange_subtask_id_all self = map onchange_subtask_id self"

text \<open>The dictionary a constraint method may return: a warning with a title and a message.\<close>

record warning =
  title :: string
  message :: string

text \<open>
  \<^verbatim>\<open>_check_unit_amount\<close> (lines 196-212) on a record set. Each \<^verbatim>\<open>raise\<close> is an
  \<open>Inl\<close>; the \<^verbatim>\<open>return\<close> inside the loop ends the method at that record, with the
  warning dictionary as its value; falling off the loop returns \<^verbatim>\<open>None\<close>. \<open>skip\<close> is
  \<^verbatim>\<open>self.env.context.get('skip_duration_warning')\<close>.
\<close>

fun check_unit_amount :: "bool \<Rightarrow> timesheet_line list \<Rightarrow> error + warning option" where
  "check_unit_amount skip [] = Inr None"
| "check_unit_amount skip (record # rest) =
     (if unit_amount record \<le> 0 then
        Inl (ValidationError ''Duration must be greater than 0 hours.'')
      else if unit_amount record > 24 then
        Inl (ValidationError ''Duration cannot exceed 24 hours for a single day.'')
      else if unit_amount record > 12 then
        (if \<not> skip then
           Inr (Some \<lparr>title = ''Long Duration'',
                      message = ''You are logging more than 12 hours. Please confirm this is correct.''\<rparr>)
         else check_unit_amount skip rest)
      else check_unit_amount skip rest)"

text \<open>
  The message of the deadline error: the translated format string with \<^verbatim>\<open>%s\<close> replaced
  by the formatted deadline.
\<close>

definition deadline_message :: "string \<Rightarrow> string" where
  "deadline_message formatted =
     ''You cannot log time after the subtask deadline ('' @ formatted @ '')''"

text \<open>
  \<^verbatim>\<open>_check_date\<close> (lines 214-228) on a record set. \<open>today\<close> is
  \<^verbatim>\<open>fields.Datetime.now().date()\<close>; \<open>strftime\<close> is the library's
  \<^verbatim>\<open>deadline.strftime('%Y-%m-%d')\<close>, a parameter of the model.
\<close>

fun check_date :: "(date \<Rightarrow> string) \<Rightarrow> date \<Rightarrow> timesheet_line list \<Rightarrow> error + unit" where
  "check_date strftime today [] = Inr ()"
| "check_date strftime today (record # rest) =
     (case (case subtask_id record of None \<Rightarrow> None | Some s \<Rightarrow> deadline s) of
        Some dl \<Rightarrow>
          if date record > dl then Inl (ValidationError (deadline_message (strftime dl)))
          else check_date strftime today rest
      | None \<Rightarrow>
          if date record > today then
            Inl (ValidationError ''You cannot log time for future dates'')
          else check_date strftime today rest)"



text \<open>
  The validation of one written record: the model's two constraint methods
  (\<^verbatim>\<open>@api.constrains\<close>) run on it, and the first \<^verbatim>\<open>ValidationError\<close> aborts the write.
  The value a constraint method returns is dropped. The model declares no other
  constraint.
\<close>

definition validate_constraints ::
    "(date \<Rightarrow> string) \<Rightarrow> date \<Rightarrow> bool \<Rightarrow> timesheet_line \<Rightarrow> error + timesheet_line" where
  "validate_constraints strftime today skip record =
     (case check_date strftime today [record] of
        Inl e \<Rightarrow> Inl e
      | Inr _ \<Rightarrow>
          (case check_unit_amount skip [record] of
             Inl e \<Rightarrow> Inl e
           | Inr _ \<Rightarrow> Inr record))"

text \<open>
  \<^verbatim>\<open>create\<close> (lines 230-240): the description is filled in when the values carry none,
  then \<^verbatim>\<open>super().create(vals)\<close> stores the record after validating it.
\<close>

definition create :: "(date \<Rightarrow> string) \<Rightarrow> date \<Rightarrow> bool \<Rightarrow> timesheet_line \<Rightarrow> error + timesheet_line" where
  "create strftime today skip vals =
     (let vals1 =
        (if not_name (name vals) \<and> subtask_id vals \<noteq> None then
           (case subtask_id vals of
              Some subtask \<Rightarrow> vals\<lparr>name := Some (''Worked on: '' @ subtask_name subtask)\<rparr>
            | None \<Rightarrow> vals)
         else if not_name (name vals) then vals\<lparr>name := Some ''General work''\<rparr>
         else vals)
      in validate_constraints strftime today skip vals1)"

text \<open>
  An update: the model does not override \<^verbatim>\<open>write\<close>, so the record with its new values is
  validated and stored.
\<close>

definition write_record ::
    "(date \<Rightarrow> string) \<Rightarrow> date \<Rightarrow> bool \<Rightarrow> timesheet_line \<Rightarrow> error + timesheet_line" where
  "write_record strftime today skip record = validate_constraints strftime today skip record"

section \<open>Weekly summary\<close>










section \<open>Example records\<close>

text \<open>
  Concrete records for the examples that follow the theorems. The days are ordinals:
  22, 24, 26, 28 and 30 April 2024 are 738998, 739000, 739002, 739004 and 739006.
\<close>

definition task_four_subtasks :: task where
  "task_four_subtasks =
     \<lparr>stage_id = Some \<lparr>stage_name = ''Done'', stage_type = ''done'', stage_is_closed = True\<rparr>,
      kanban_state = Kanban_normal, progress = 100, planned_hours = 0, effective_hours = 0,
      remaining_hours = 0, timesheet_ids = [],
      subtask_ids =
        [\<lparr>subtask_rec_id = 1, subtask_name = ''design'', parent_task_id = 1, is_done = True,
          deadline = None\<rparr>,
         \<lparr>subtask_rec_id = 2, subtask_name = ''build'', parent_task_id = 1, is_done = False,
          deadline = None\<rparr>,
         \<lparr>subtask_rec_id = 3, subtask_name = ''test'', parent_task_id = 1, is_done = False,
          deadline = None\<rparr>,
         \<lparr>subtask_rec_id = 4, subtask_name = ''ship'', parent_task_id = 1, is_done = False,
          deadline = None\<rparr>],
      date_end = None, is_closed = False\<rparr>"

definition task_in_stage :: "string \<Rightarrow> string \<Rightarrow> task" where
  "task_in_stage n k =
     \<lparr>stage_id = Some \<lparr>stage_name = n, stage_type = k, stage_is_closed = (k = ''done'')\<rparr>,
      kanban_state = Kanban_blocked, progress = 33, planned_hours = 0, effective_hours = 0,
      remaining_hours = 0, timesheet_ids = [], subtask_ids = [], date_end = None,
      is_closed = False\<rparr>"

definition task_with_hours :: "real \<Rightarrow> real \<Rightarrow> real \<Rightarrow> task" where
  "task_with_hours p planned spent =
     \<lparr>stage_id = None, kanban_state = Kanban_normal, progress = p, planned_hours = planned,
      effective_hours = spent, remaining_hours = 0, timesheet_ids = [], subtask_ids = [],
      date_end = None, is_closed = False\<rparr>"

definition audit_subtask :: subtask where
  "audit_subtask =
     \<lparr>subtask_rec_id = 7, subtask_name = ''Audit'', parent_task_id = 1, is_done = False,
      deadline = Some 739006\<rparr>"

definition sample_log :: timesheet_line where
  "sample_log =
     \<lparr>name = Some ''Review notes'',
      task_id = \<lparr>task_rec_id = 1, task_name = ''Release''\<rparr>,
      subtask_id = Some audit_subtask,
      user_id = \<lparr>user_rec_id = 3, user_name = ''Ada''\<rparr>,
      date = 739002, unit_amount = 8\<rparr>"



section \<open>Hours-based progress adjustment\<close>

text \<open>
  Claim C1. For a task with \<open>planned_hours > 0\<close> and no subtasks, recomputing
  \<open>remaining_hours\<close> computes \<open>hours_progress = min(100, effective_hours / planned_hours * 100)\<close>
  and overwrites \<open>progress\<close> with it exactly when \<open>|progress - hours_progress| > 5\<close>;
  otherwise \<open>progress\<close> keeps its value. For a task with at least one subtask the
  recomputation never changes \<open>progress\<close>.
\<close>

theorem hours_progress_adjustment:
  "(planned_hours t > 0 \<and> subtask_ids t = [] \<longrightarrow>
      progress (compute_remaining_hours t) =
        (if \<bar>progress t - min 100 (effective_hours t / planned_hours t * 100)\<bar> > 5
         then min 100 (effective_hours t / planned_hours t * 100)
         else progress t))
   \<and> (subtask_ids t \<noteq> [] \<longrightarrow> progress (compute_remaining_hours t) = progress t)"
  by (simp add: compute_remaining_hours_def Let_def)

theorem hours_progress_adjustment_witness:
  "progress (compute_remaining_hours
      \<lparr>stage_id = None, kanban_state = Kanban_normal, progress = 40, planned_hours = 10,
       effective_hours = 5, remaining_hours = 10, timesheet_ids = [], subtask_ids = [],
       date_end = None, is_closed = False\<rparr>) = 50
   \<and> progress (compute_remaining_hours
      \<lparr>stage_id = None, kanban_state = Kanban_normal, progress = 50, planned_hours = 10,
       effective_hours = 27 / 5, remaining_hours = 5, timesheet_ids = [], subtask_ids = [],
       date_end = None, is_closed = False\<rparr>) = 50
   \<and> progress (compute_remaining_hours
      \<lparr>stage_id = None, kanban_state = Kanban_normal, progress = 40, planned_hours = 10,
       effective_hours = 5, remaining_hours = 10, timesheet_ids = [],
       subtask_ids = [\<lparr>subtask_rec_id = 1, subtask_name = ''draft'', parent_task_id = 1,
                       is_done = False, deadline = None\<rparr>],
       date_end = None, is_closed = False\<rparr>) = 40"
  using hours_progress_adjustment
      [of "\<lparr>stage_id = None, kanban_state = Kanban_normal, progress = 40, planned_hours = 10,
       effective_hours = 5, remaining_hours = 10, timesheet_ids = [], subtask_ids = [],
       date_end = None, is_closed = False\<rparr>"]
    hours_progress_adjustment
      [of "\<lparr>stage_id = None, kanban_state = Kanban_normal, progress = 50, planned_hours = 10,
       effective_hours = 27 / 5, remaining_hours = 5, timesheet_ids = [], subtask_ids = [],
       date_end = None, is_closed = False\<rparr>"]
    hours_progress_adjustment
      [of "\<lparr>stage_id = None, kanban_state = Kanban_normal, progress = 40, planned_hours = 10,
       effective_hours = 5, remaining_hours = 10, timesheet_ids = [],
       subtask_ids = [\<lparr>subtask_rec_id = 1, subtask_name = ''draft'', parent_task_id = 1,
                       is_done = False, deadline = None\<rparr>],
       date_end = None, is_closed = False\<rparr>"]
  by simp

section \<open>Remaining hours\<close>

text \<open>
  Claim C3. After a recomputation \<open>remaining_hours\<close> is \<open>planned_hours - effective_hours\<close>,
  with no floor or clamp, so it may be negative; both definitions of
  \<^verbatim>\<open>_compute_remaining_hours\<close> in the source assign this same value, on one task and on
  every task of a record set.
\<close>

theorem remaining_hours_difference:
  "remaining_hours (compute_remaining_hours t) = planned_hours t - effective_hours t
   \<and> remaining_hours (compute_remaining_hours_first t) = planned_hours t - effective_hours t
   \<and> map remaining_hours (compute_remaining_hours_all self)
       = map (\<lambda>t. planned_hours t - effective_hours t) self
   \<and> map remaining_hours (compute_remaining_hours_first_all self)
       = map remaining_hours (compute_remaining_hours_all self)"
  by (simp add: compute_remaining_hours_def compute_remaining_hours_first_def
      compute_remaining_hours_all_def compute_remaining_hours_first_all_def or_zero_def Let_def)

theorem remaining_hours_difference_witness:
  "remaining_hours (compute_remaining_hours
      \<lparr>stage_id = None, kanban_state = Kanban_normal, progress = 0, planned_hours = 2,
       effective_hours = 5, remaining_hours = 0, timesheet_ids = [], subtask_ids = [],
       date_end = None, is_closed = False\<rparr>) = - 3
   \<and> remaining_hours (compute_remaining_hours_first
      \<lparr>stage_id = None, kanban_state = Kanban_normal, progress = 0, planned_hours = 2,
       effective_hours = 5, remaining_hours = 0, timesheet_ids = [], subtask_ids = [],
       date_end = None, is_closed = False\<rparr>) = - 3"
  using remaining_hours_difference
      [of "\<lparr>stage_id = None, kanban_state = Kanban_normal, progress = 0, planned_hours = 2,
       effective_hours = 5, remaining_hours = 0, timesheet_ids = [], subtask_ids = [],
       date_end = None, is_closed = False\<rparr>" "[]"]
  by simp

section \<open>Validation of time log entries\<close>

text \<open>The two constraint methods on a single record, and what makes a write fail.\<close>

lemma check_unit_amount_single:
  "check_unit_amount skip [r] =
     (if unit_amount r \<le> 0 then Inl (ValidationError ''Duration must be greater than 0 hours.'')
      else if unit_amount r > 24 then
        Inl (ValidationError ''Duration cannot exceed 24 hours for a single day.'')
      else if unit_amount r > 12 \<and> \<not> skip then
        Inr (Some \<lparr>title = ''Long Duration'',
                   message = ''You are logging more than 12 hours. Please confirm this is correct.''\<rparr>)
      else Inr None)"
  by simp

lemma check_date_single:
  "check_date strftime today [r] =
     (case (case subtask_id r of None \<Rightarrow> None | Some s \<Rightarrow> deadline s) of
        Some dl \<Rightarrow>
          if date r > dl then Inl (ValidationError (deadline_message (strftime dl))) else Inr ()
      | None \<Rightarrow>
          if date r > today then Inl (ValidationError ''You cannot log time for future dates'')
          else Inr ())"
  by (simp split: option.splits)

lemma validate_constraints_fails:
  "isl (validate_constraints strftime today skip r) =
     (unit_amount r \<le> 0 \<or> unit_amount r > 24
      \<or> (case (case subtask_id r of None \<Rightarrow> None | Some s \<Rightarrow> deadline s) of
            Some dl \<Rightarrow> date r > dl
          | None \<Rightarrow> date r > today))"
  unfolding validate_constraints_def check_unit_amount_single check_date_single
  by (auto split: option.splits sum.splits)

lemma validate_constraints_stores:
  "validate_constraints strftime today skip r = Inr r' \<Longrightarrow> r' = r"
  by (auto simp: validate_constraints_def split: sum.splits)

lemma create_fails:
  "isl (create strftime today skip r) =
     (unit_amount r \<le> 0 \<or> unit_amount r > 24
      \<or> (case (case subtask_id r of None \<Rightarrow> None | Some s \<Rightarrow> deadline s) of
            Some dl \<Rightarrow> date r > dl
          | None \<Rightarrow> date r > today))"
  unfolding create_def Let_def validate_constraints_fails
  by (auto split: option.splits)

lemma create_keeps_references:
  "create strftime today skip r = Inr r' \<Longrightarrow>
     subtask_id r' = subtask_id r \<and> task_id r' = task_id r \<and> date r' = date r
     \<and> unit_amount r' = unit_amount r"
  unfolding create_def Let_def
  by (auto dest!: validate_constraints_stores split: option.splits if_splits)

text \<open>
  Claim C5. On a create or an update of a time log entry, a duration \<open>\<le> 0\<close> fails with
  a \<^verbatim>\<open>ValidationError\<close>, a duration \<open>> 24\<close> fails with a \<^verbatim>\<open>ValidationError\<close>, and a
  duration in \<open>(0, 24]\<close> never fails this check: above 12 it only returns a warning, unless
  the warning is suppressed. A write that succeeds has \<open>0 < duration \<le> 24\<close>.
\<close>

theorem duration_check:
  "(unit_amount r \<le> 0 \<longrightarrow>
      check_unit_amount skip [r]
        = Inl (ValidationError ''Duration must be greater than 0 hours.''))
   \<and> (unit_amount r > 24 \<longrightarrow>
      check_unit_amount skip [r]
        = Inl (ValidationError ''Duration cannot exceed 24 hours for a single day.''))
   \<and> (0 < unit_amount r \<and> unit_amount r \<le> 24 \<longrightarrow>
      check_unit_amount skip [r]
        = Inr (if unit_amount r > 12 \<and> \<not> skip then
                 Some \<lparr>title = ''Long Duration'',
                       message = ''You are logging more than 12 hours. Please confirm this is correct.''\<rparr>
               else None))
   \<and> (create strftime today skip r = Inr r' \<longrightarrow> 0 < unit_amount r \<and> unit_amount r \<le> 24)
   \<and> (write_record strftime today skip r = Inr r' \<longrightarrow> 0 < unit_amount r \<and> unit_amount r \<le> 24)"
proof -
  have c: "0 < unit_amount r \<and> unit_amount r \<le> 24" if "create strftime today skip r = Inr r'"
  proof -
    from that have "\<not> isl (create strftime today skip r)" by simp
    then show ?thesis unfolding create_fails by auto
  qed
  have w: "0 < unit_amount r \<and> unit_amount r \<le> 24"
    if "write_record strftime today skip r = Inr r'"
  proof -
    from that have "\<not> isl (validate_constraints strftime today skip r)"
      by (simp add: write_record_def)
    then show ?thesis unfolding validate_constraints_fails by auto
  qed
  from c w show ?thesis unfolding check_unit_amount_single by auto
qed

theorem duration_check_witness:
  "check_unit_amount False [sample_log\<lparr>unit_amount := 0\<rparr>]
     = Inl (ValidationError ''Duration must be greater than 0 hours.'')
   \<and> check_unit_amount False [sample_log\<lparr>unit_amount := 25\<rparr>]
     = Inl (ValidationError ''Duration cannot exceed 24 hours for a single day.'')
   \<and> check_unit_amount False [sample_log\<lparr>unit_amount := 13\<rparr>]
     = Inr (Some \<lparr>title = ''Long Duration'',
                  message = ''You are logging more than 12 hours. Please confirm this is correct.''\<rparr>)
   \<and> check_unit_amount True [sample_log\<lparr>unit_amount := 13\<rparr>] = Inr None
   \<and> check_unit_amount False [sample_log] = Inr None"
  using duration_check [where r = "sample_log\<lparr>unit_amount := 0\<rparr>" and skip = False]
    duration_check [where r = "sample_log\<lparr>unit_amount := 25\<rparr>" and skip = False]
    duration_check [where r = "sample_log\<lparr>unit_amount := 13\<rparr>" and skip = False]
    duration_check [where r = "sample_log\<lparr>unit_amount := 13\<rparr>" and skip = True]
    duration_check [where r = sample_log and skip = False]
  by (simp add: sample_log_def)






section \<open>Progress from subtasks or from the stage: the properties\<close>

text \<open>
  Claim C2. For a task with at least one subtask, the progress recomputation sets
  \<open>progress = completed_subtask_count / total_subtask_count * 100\<close>, and this holds after
  the \<open>is_done\<close> flag of any of its subtasks is toggled. For a task with no subtasks the
  recomputation sets \<open>progress\<close> from the stage name (To-Do 0, In Progress 40, Review 70,
  Done 100, Cancelled 0); an unrecognised stage name, or no stage, leaves it unchanged.
\<close>

theorem progress_from_subtasks_or_stage:
  "(subtask_ids t \<noteq> [] \<longrightarrow>
      progress (update_progress_from_subtasks t) =
        real (length (filter is_done (subtask_ids t))) / real (length (subtask_ids t)) * 100)
   \<and> (i < length (subtask_ids t) \<longrightarrow>
      subtask_ids (toggle_is_done i t) =
        (subtask_ids t)[i := (subtask_ids t ! i)\<lparr>is_done := \<not> is_done (subtask_ids t ! i)\<rparr>]
      \<and> progress (toggle_is_done i t) =
        real (length (filter is_done (subtask_ids (toggle_is_done i t))))
          / real (length (subtask_ids (toggle_is_done i t))) * 100)
   \<and> (subtask_ids t = [] \<and> stage_id t = Some s \<longrightarrow>
      progress (update_progress_from_subtasks t) =
        (if stage_name s = ''To-Do'' then 0
         else if stage_name s = ''In Progress'' then 40
         else if stage_name s = ''Review'' then 70
         else if stage_name s = ''Done'' then 100
         else if stage_name s = ''Cancelled'' then 0
         else progress t))
   \<and> (subtask_ids t = [] \<and> stage_id t = None \<longrightarrow>
      progress (update_progress_from_subtasks t) = progress t)"
proof -
  have ratio: "subtask_ids u \<noteq> [] \<Longrightarrow>
      progress (update_progress_from_subtasks u) =
        real (length (filter is_done (subtask_ids u))) / real (length (subtask_ids u)) * 100
      \<and> subtask_ids (update_progress_from_subtasks u) = subtask_ids u" for u
    by (simp add: update_progress_from_subtasks_def Let_def)
  have toggle: "subtask_ids (toggle_is_done i t) =
        (subtask_ids t)[i := (subtask_ids t ! i)\<lparr>is_done := \<not> is_done (subtask_ids t ! i)\<rparr>]
      \<and> progress (toggle_is_done i t) =
        real (length (filter is_done (subtask_ids (toggle_is_done i t))))
          / real (length (subtask_ids (toggle_is_done i t))) * 100"
    if "i < length (subtask_ids t)"
  proof -
    let ?u = "t\<lparr>subtask_ids :=
               (subtask_ids t)[i := (subtask_ids t ! i)\<lparr>is_done := \<not> is_done (subtask_ids t ! i)\<rparr>]\<rparr>"
    from that have ne: "subtask_ids ?u \<noteq> []" by auto
    from that have eq: "toggle_is_done i t = update_progress_from_subtasks ?u"
      by (simp add: toggle_is_done_def)
    from ratio [OF ne] show ?thesis unfolding eq by simp
  qed
  have stage: "subtask_ids t = [] \<Longrightarrow> stage_id t = Some s \<Longrightarrow>
      progress (update_progress_from_subtasks t) =
        (if stage_name s = ''To-Do'' then 0
         else if stage_name s = ''In Progress'' then 40
         else if stage_name s = ''Review'' then 70
         else if stage_name s = ''Done'' then 100
         else if stage_name s = ''Cancelled'' then 0
         else progress t)"
    by (simp add: update_progress_from_subtasks_def)
  have nostage: "subtask_ids t = [] \<Longrightarrow> stage_id t = None \<Longrightarrow>
      progress (update_progress_from_subtasks t) = progress t"
    by (simp add: update_progress_from_subtasks_def)
  from ratio toggle stage nostage show ?thesis by blast
qed

theorem progress_from_subtasks_or_stage_witness:
  "progress (update_progress_from_subtasks task_four_subtasks) = 25
   \<and> progress (toggle_is_done 1 task_four_subtasks) = 50
   \<and> progress (toggle_is_done 0 task_four_subtasks) = 0
   \<and> progress (update_progress_from_subtasks (task_in_stage ''In Progress'' ''open'')) = 40
   \<and> progress (update_progress_from_subtasks (task_in_stage ''Waiting'' ''open'')) = 33
   \<and> progress (update_progress_from_subtasks (task_with_hours 12 0 0)) = 12"
  using progress_from_subtasks_or_stage [where t = task_four_subtasks and i = 1]
    progress_from_subtasks_or_stage [where t = task_four_subtasks and i = 0]
    progress_from_subtasks_or_stage
      [where t = "task_in_stage ''In Progress'' ''open''"
        and s = "\<lparr>stage_name = ''In Progress'', stage_type = ''open'', stage_is_closed = False\<rparr>"]
    progress_from_subtasks_or_stage
      [where t = "task_in_stage ''Waiting'' ''open''"
        and s = "\<lparr>stage_name = ''Waiting'', stage_type = ''open'', stage_is_closed = False\<rparr>"]
    progress_from_subtasks_or_stage [where t = "task_with_hours 12 0 0"]
  by (simp add: task_four_subtasks_def task_in_stage_def task_with_hours_def)

section \<open>Stage and closure synchronisation: the properties\<close>

text \<open>
  Claim C4, as stated: on a stage change to the stage named "Done", \<open>is_closed\<close> becomes
  true. It need not: the closed flag follows the stage's kind, not its name. A stage named
  "Done" whose kind is \<^verbatim>\<open>open\<close> leaves the task open, here even reopening a closed task.
\<close>

theorem done_stage_not_closed:
  "is_closed (onchange_stage_id 1714130000
      \<lparr>stage_id = Some \<lparr>stage_name = ''Done'', stage_type = ''open'', stage_is_closed = False\<rparr>,
       kanban_state = Kanban_normal, progress = 40, planned_hours = 0, effective_hours = 0,
       remaining_hours = 0, timesheet_ids = [], subtask_ids = [], date_end = None,
       is_closed = True\<rparr>) = False"
  by (simp add: onchange_stage_id_def)

text \<open>
  Claim C4, amended. On a stage change to the stage named "Done" the synchroniser sets
  \<open>kanban_state\<close> to done, \<open>progress\<close> to 100 and \<open>date_end\<close> to the current time; on a
  change to "Cancelled", \<open>kanban_state\<close> becomes blocked and \<open>progress\<close> 0; on a change to
  "To-Do", "In Progress" or "Review", \<open>kanban_state\<close> becomes normal. In every case
  \<open>is_closed\<close> is true iff the new stage's kind is done or cancelled, so a change to "Done"
  or "Cancelled" closes the task exactly when that stage has such a kind. The stored
  recomputation of \<open>is_closed\<close> copies the stage's own closed flag, and is false without a
  stage.
\<close>

theorem stage_synchronisation:
  "(stage_id t = Some s \<longrightarrow>
      (stage_name s = ''Done'' \<longrightarrow>
         kanban_state (onchange_stage_id now t) = Kanban_done
         \<and> progress (onchange_stage_id now t) = 100
         \<and> date_end (onchange_stage_id now t) = Some now)
      \<and> (stage_name s = ''Cancelled'' \<longrightarrow>
         kanban_state (onchange_stage_id now t) = Kanban_blocked
         \<and> progress (onchange_stage_id now t) = 0)
      \<and> (stage_name s = ''To-Do'' \<or> stage_name s = ''In Progress'' \<or> stage_name s = ''Review'' \<longrightarrow>
         kanban_state (onchange_stage_id now t) = Kanban_normal)
      \<and> is_closed (onchange_stage_id now t)
          = (stage_type s = ''done'' \<or> stage_type s = ''cancelled'')
      \<and> is_closed (compute_is_closed t) = stage_is_closed s)
   \<and> (stage_id t = None \<longrightarrow>
      onchange_stage_id now t = t \<and> is_closed (compute_is_closed t) = False)"
  by (simp add: onchange_stage_id_def compute_is_closed_def Let_def)

theorem stage_synchronisation_witness:
  "kanban_state (onchange_stage_id 1714130000 (task_in_stage ''Done'' ''done'')) = Kanban_done
   \<and> progress (onchange_stage_id 1714130000 (task_in_stage ''Done'' ''done'')) = 100
   \<and> date_end (onchange_stage_id 1714130000 (task_in_stage ''Done'' ''done'')) = Some 1714130000
   \<and> is_closed (onchange_stage_id 1714130000 (task_in_stage ''Done'' ''done'')) = True
   \<and> is_closed (compute_is_closed (task_in_stage ''Done'' ''done'')) = True
   \<and> kanban_state (onchange_stage_id 1714130000 (task_in_stage ''Cancelled'' ''cancelled''))
       = Kanban_blocked
   \<and> progress (onchange_stage_id 1714130000 (task_in_stage ''Cancelled'' ''cancelled'')) = 0
   \<and> is_closed (onchange_stage_id 1714130000 (task_in_stage ''Cancelled'' ''cancelled'')) = True
   \<and> kanban_state (onchange_stage_id 1714130000 (task_in_stage ''Review'' ''open''))
       = Kanban_normal
   \<and> is_closed (onchange_stage_id 1714130000 (task_in_stage ''Review'' ''open'')) = False
   \<and> onchange_stage_id 1714130000 (task_with_hours 12 0 0) = task_with_hours 12 0 0"
  using stage_synchronisation
      [where t = "task_in_stage ''Done'' ''done''" and now = 1714130000
        and s = "\<lparr>stage_name = ''Done'', stage_type = ''done'', stage_is_closed = True\<rparr>"]
    stage_synchronisation
      [where t = "task_in_stage ''Cancelled'' ''cancelled''" and now = 1714130000
        and s = "\<lparr>stage_name = ''Cancelled'', stage_type = ''cancelled'', stage_is_closed = False\<rparr>"]
    stage_synchronisation
      [where t = "task_in_stage ''Review'' ''open''" and now = 1714130000
        and s = "\<lparr>stage_name = ''Review'', stage_type = ''open'', stage_is_closed = False\<rparr>"]
    stage_synchronisation [where t = "task_with_hours 12 0 0" and now = 1714130000]
  by (simp add: task_in_stage_def task_with_hours_def)

section \<open>Time-tracking summary: the over-budget flag\<close>

text \<open>
  Claim C9, as stated: \<open>is_over_budget\<close> is true iff \<open>effective_hours > planned_hours\<close>.
  It is not: with no planned hours (0) and 5 hours spent, \<open>5 > 0\<close> and the flag is false.
\<close>

theorem over_budget_without_plan:
  "map_sum id is_over_budget (get_time_tracking_summary
      [\<lparr>stage_id = None, kanban_state = Kanban_normal, progress = 0, planned_hours = 0,
        effective_hours = 5, remaining_hours = - 5, timesheet_ids = [], subtask_ids = [],
        date_end = None, is_closed = False\<rparr>]) = Inr False"
  by (simp add: get_time_tracking_summary_def)

text \<open>
  Claim C9, amended. For every task, \<^verbatim>\<open>get_time_tracking_summary\<close> returns a summary whose
  \<open>is_over_budget\<close> is true iff \<open>planned_hours\<close> is not zero and
  \<open>effective_hours > planned_hours\<close>.
\<close>

theorem over_budget_flag:
  "map_sum id is_over_budget (get_time_tracking_summary [t])
     = Inr (planned_hours t \<noteq> 0 \<and> effective_hours t > planned_hours t)"
  by (simp add: get_time_tracking_summary_def)

theorem over_budget_flag_witness:
  "map_sum id is_over_budget (get_time_tracking_summary [task_with_hours 0 2 5]) = Inr True
   \<and> map_sum id is_over_budget (get_time_tracking_summary [task_with_hours 0 5 5]) = Inr False"
  using over_budget_flag [where t = "task_with_hours 0 2 5"]
    over_budget_flag [where t = "task_with_hours 0 5 5"]
  by (simp add: task_with_hours_def)

section \<open>Selecting a subtask on a time log entry\<close>

text \<open>
  Claim C10. When a subtask with a deadline is selected on a time log entry, the handler
  overwrites the entry's date with the subtask's deadline, whatever date was entered, and,
  when the work description is empty, sets it to the subtask's name; a description that is
  not empty is kept.
\<close>

theorem subtask_selection_fills_date:
  "subtask_id r = Some s \<and> deadline s = Some d \<longrightarrow>
     date (onchange_subtask_id r) = d
     \<and> name (onchange_subtask_id r)
         = (if name r = None \<or> name r = Some [] then Some (subtask_name s) else name r)"
  by (auto simp: onchange_subtask_id_def not_name_def Let_def split: option.splits)

theorem subtask_selection_fills_date_witness:
  "date (onchange_subtask_id (sample_log\<lparr>name := None\<rparr>)) = 739006
   \<and> name (onchange_subtask_id (sample_log\<lparr>name := None\<rparr>)) = Some ''Audit''
   \<and> date (onchange_subtask_id sample_log) = 739006
   \<and> name (onchange_subtask_id sample_log) = Some ''Review notes''"
  using subtask_selection_fills_date
      [where r = "sample_log\<lparr>name := None\<rparr>" and s = audit_subtask and d = 739006]
    subtask_selection_fills_date [where r = sample_log and s = audit_subtask and d = 739006]
  by (simp add: sample_log_def audit_subtask_def)

section \<open>Weekly summary: the properties\<close>









end
